theory Spec2Isabelle
  imports Complex_Main "HOL-Library.Sublist" "HOL-Library.Char_ord" "HOL-Library.List_Lexorder"
begin

section \<open>Values exchanged with the upstream API\<close>

text \<open>
  The proxy (\<^verbatim>\<open>backend/main.py\<close>) works on whatever \<^verbatim>\<open>resp.json()\<close> decodes: Python
  \<^verbatim>\<open>None\<close>, \<^verbatim>\<open>bool\<close>, \<^verbatim>\<open>int\<close>, \<^verbatim>\<open>float\<close>, \<^verbatim>\<open>str\<close>, \<^verbatim>\<open>list\<close> and \<^verbatim>\<open>dict\<close>. A \<^verbatim>\<open>dict\<close> is the list of
  its items in insertion order; a finite float is its rational value.
\<close>

datatype json =
    JNull
  | JBool bool
  | JInt int
  | JFloat rat
  | JString string
  | JArray "json list"
  | JObject "(string \<times> json) list"

text \<open>
  Exceptions that leave \<^verbatim>\<open>get_wallet_txs_simple\<close>: the \<^verbatim>\<open>HTTPException\<close> it raises itself
  (status code and detail), and the two Python raises when a method or an iteration is
  applied to a value of the wrong type.
\<close>

datatype error =
    HTTPException int string
  | TypeError
  | AttributeError

text \<open>Python's truth value of a decoded value, as \<^verbatim>\<open>if symbol:\<close> and \<^verbatim>\<open>x or {}\<close> test it.\<close>

fun truthy :: "json \<Rightarrow> bool" where
  "truthy JNull = False"
| "truthy (JBool b) = b"
| "truthy (JInt i) = (i \<noteq> 0)"
| "truthy (JFloat r) = (r \<noteq> 0)"
| "truthy (JString s) = (s \<noteq> [])"
| "truthy (JArray xs) = (xs \<noteq> [])"
| "truthy (JObject kvs) = (kvs \<noteq> [])"

text \<open>
  \<^verbatim>\<open>x.get(key, default)\<close>: only a \<^verbatim>\<open>dict\<close> has the method; on any other value Python raises
  \<^verbatim>\<open>AttributeError\<close>.
\<close>

fun dict_get :: "json \<Rightarrow> string \<Rightarrow> json \<Rightarrow> error + json" where
  "dict_get (JObject kvs) k d = Inr (case map_of kvs k of None \<Rightarrow> d | Some v \<Rightarrow> v)"
| "dict_get _ k d = Inl AttributeError"

text \<open>
  \<^verbatim>\<open>for x in v\<close>: a list yields its elements, a \<^verbatim>\<open>dict\<close> its keys, a \<^verbatim>\<open>str\<close> its characters
  (each a one-character \<^verbatim>\<open>str\<close>); anything else raises \<^verbatim>\<open>TypeError\<close>.
\<close>

fun py_iter :: "json \<Rightarrow> error + json list" where
  "py_iter (JArray xs) = Inr xs"
| "py_iter (JObject kvs) = Inr (map (\<lambda>kv. JString (fst kv)) kvs)"
| "py_iter (JString s) = Inr (map (\<lambda>c. JString [c]) s)"
| "py_iter _ = Inl TypeError"

section \<open>The transaction proxy\<close>

subsection \<open>Simplification (lines 56--76 of \<^verbatim>\<open>get_wallet_txs_simple\<close>)\<close>

text \<open>
  The inner loop over \<^verbatim>\<open>tx.get("balanceChanges", [])\<close>. The second argument is the list
  \<^verbatim>\<open>token_changes\<close> built so far; \<^verbatim>\<open>append\<close> adds at its end. A raise ends the loop.
\<close>

fun token_changes_loop :: "json list \<Rightarrow> json list \<Rightarrow> error + json list" where
  "token_changes_loop [] token_changes = Inr token_changes"
| "token_changes_loop (ch # rest) token_changes =
     (case dict_get ch ''tokenInfo'' JNull of
        Inl e \<Rightarrow> Inl e
      | Inr ti \<Rightarrow>
          (case dict_get (if truthy ti then ti else JObject []) ''symbol'' JNull of
             Inl e \<Rightarrow> Inl e
           | Inr symbol \<Rightarrow>
               if truthy symbol then
                 (case dict_get ch ''tokenAmount'' JNull of
                    Inl e \<Rightarrow> Inl e
                  | Inr amount \<Rightarrow>
                      (case dict_get ch ''account'' JNull of
                         Inl e \<Rightarrow> Inl e
                       | Inr owner \<Rightarrow>
                           token_changes_loop rest
                             (token_changes @
                               [JObject [(''symbol'', symbol), (''amount'', amount),
                                         (''owner'', owner)]])))
               else token_changes_loop rest token_changes))"

text \<open>One pass of the outer loop body: the dictionary appended to \<^verbatim>\<open>slim\<close> for \<^verbatim>\<open>tx\<close>.\<close>

definition simplify_tx :: "json \<Rightarrow> error + json" where
  "simplify_tx tx =
     (case dict_get tx ''balanceChanges'' (JArray []) of
        Inl e \<Rightarrow> Inl e
      | Inr changes \<Rightarrow>
          (case py_iter changes of
             Inl e \<Rightarrow> Inl e
           | Inr chs \<Rightarrow>
               (case token_changes_loop chs [] of
                  Inl e \<Rightarrow> Inl e
                | Inr token_changes \<Rightarrow>
                    (case dict_get tx ''signature'' JNull of
                       Inl e \<Rightarrow> Inl e
                     | Inr signature \<Rightarrow>
                         (case dict_get tx ''timestamp'' JNull of
                            Inl e \<Rightarrow> Inl e
                          | Inr timestamp \<Rightarrow>
                              (case dict_get tx ''type'' JNull of
                                 Inl e \<Rightarrow> Inl e
                               | Inr ty \<Rightarrow>
                                   Inr (JObject [(''signature'', signature),
                                                 (''timestamp'', timestamp),
                                                 (''type'', ty),
                                                 (''token_changes'', JArray token_changes)])))))))"

text \<open>The outer loop \<^verbatim>\<open>for tx in txs\<close>, with the list \<^verbatim>\<open>slim\<close> built so far.\<close>

fun slim_loop :: "json list \<Rightarrow> json list \<Rightarrow> error + json list" where
  "slim_loop [] slim = Inr slim"
| "slim_loop (tx # rest) slim =
     (case simplify_tx tx of
        Inl e \<Rightarrow> Inl e
      | Inr s \<Rightarrow> slim_loop rest (slim @ [s]))"

definition simplify :: "json \<Rightarrow> error + json" where
  "simplify txs =
     (case py_iter txs of
        Inl e \<Rightarrow> Inl e
      | Inr raw \<Rightarrow>
          (case slim_loop raw [] of
             Inl e \<Rightarrow> Inl e
           | Inr slim \<Rightarrow> Inr (JArray slim)))"

subsection \<open>Credential, request and error mapping (lines 10--54)\<close>

text \<open>
  \<^verbatim>\<open>os.getenv\<close> reads the process environment, a partial map from names to strings.
  \<^verbatim>\<open>not key\<close> holds for \<^verbatim>\<open>None\<close> and for the empty string.
\<close>

definition get_helius_key :: "(string \<rightharpoonup> string) \<Rightarrow> error + string" where
  "get_helius_key environ =
     (case environ ''HELIUS_API_KEY'' of
        None \<Rightarrow> Inl (HTTPException 500 ''HELIUS_API_KEY missing in .env or environment variables'')
      | Some key \<Rightarrow>
          if key = [] then
            Inl (HTTPException 500 ''HELIUS_API_KEY missing in .env or environment variables'')
          else Inr key)"

text \<open>Decimal text of an integer, as an f-string prints it; \<^verbatim>\<open>None\<close> prints as \<^verbatim>\<open>None\<close>.\<close>

fun nat_digits :: "nat \<Rightarrow> string" where
  "nat_digits n =
     (if n < 10 then [char_of (48 + n)]
      else nat_digits (n div 10) @ [char_of (48 + n mod 10)])"

definition str_int :: "int \<Rightarrow> string" where
  "str_int i = (if i < 0 then CHR ''-'' # nat_digits (nat (- i)) else nat_digits (nat i))"

definition str_limit :: "int option \<Rightarrow> string" where
  "str_limit limit = (case limit of None \<Rightarrow> ''None'' | Some n \<Rightarrow> str_int n)"

definition request_url :: "string \<Rightarrow> string \<Rightarrow> int option \<Rightarrow> string" where
  "request_url address api_key limit =
     ''https://api.helius.xyz/v0/addresses/'' @ address @ ''/transactions'' @
     ''?api-key='' @ api_key @ ''&limit='' @ str_limit limit"

text \<open>
  What \<^verbatim>\<open>requests.get\<close> gives for a URL: it raises a \<^verbatim>\<open>RequestException\<close> (timeout, DNS
  failure, refused connection; the string is \<^verbatim>\<open>str(e)\<close>), or it returns a response. Of a
  response the proxy reads \<^verbatim>\<open>status_code\<close>, \<^verbatim>\<open>text\<close> and \<^verbatim>\<open>json()\<close>; \<open>json_body\<close> is the
  decoded value, or the message of the decoding error, which \<^verbatim>\<open>requests\<close> raises as a
  \<^verbatim>\<open>RequestException\<close> of its own.
\<close>

record response =
  status_code :: int
  body_text :: string
  json_body :: "string + json"

datatype http_result =
    RequestException string
  | Response response

text \<open>
  \<^verbatim>\<open>Response.raise_for_status\<close> of the \<^verbatim>\<open>requests\<close> library raises \<^verbatim>\<open>HTTPError\<close> exactly for
  the client and server error statuses, 400 to 599.
\<close>

definition raise_for_status :: "response \<Rightarrow> bool" where
  "raise_for_status resp \<longleftrightarrow> 400 \<le> status_code resp \<and> status_code resp < 600"

text \<open>
  The endpoint. Besides its result it returns the list of URLs it requested from the
  upstream, in order: the only effect of the function.
\<close>

definition get_wallet_txs_simple ::
  "(string \<rightharpoonup> string) \<Rightarrow> (string \<Rightarrow> http_result) \<Rightarrow> string \<Rightarrow> int option
     \<Rightarrow> string list \<times> (error + json)" where
  "get_wallet_txs_simple environ upstream address limit =
     (case get_helius_key environ of
        Inl e \<Rightarrow> ([], Inl e)
      | Inr api_key \<Rightarrow>
          (let url = request_url address api_key limit in
           (case upstream url of
              RequestException msg \<Rightarrow> ([url], Inl (HTTPException 500 msg))
            | Response resp \<Rightarrow>
                if raise_for_status resp then
                  ([url], Inl (HTTPException (status_code resp) (body_text resp)))
                else
                  (case json_body resp of
                     Inl msg \<Rightarrow> ([url], Inl (HTTPException 500 msg))
                   | Inr txs \<Rightarrow> ([url], simplify txs)))))"

section \<open>The dashboard client\<close>

subsection \<open>Fetch and cache (lines 88--96 of \<^verbatim>\<open>frontend_streamlit/app.py\<close>)\<close>

text \<open>
  The exceptions of the fetch: \<^verbatim>\<open>requests.HTTPError\<close> from \<^verbatim>\<open>raise_for_status\<close> (status and
  body of the response) and any other \<^verbatim>\<open>requests.RequestException\<close> (its message).
\<close>

datatype fetch_error =
    HTTPError int string
  | RequestError string

text \<open>
  The body of \<^verbatim>\<open>cached_get\<close>, without its decorator: one GET of the URL, returned with the
  list of URLs requested.
\<close>

definition cached_get_body ::
  "(string \<Rightarrow> http_result) \<Rightarrow> string \<Rightarrow> string list \<times> (fetch_error + json)" where
  "cached_get_body backend url =
     (case backend url of
        RequestException msg \<Rightarrow> ([url], Inl (RequestError msg))
      | Response r \<Rightarrow>
          if raise_for_status r then ([url], Inl (HTTPError (status_code r) (body_text r)))
          else
            (case json_body r of
               Inl msg \<Rightarrow> ([url], Inl (RequestError msg))
             | Inr v \<Rightarrow> ([url], Inr v)))"

text \<open>
  The decorator \<^verbatim>\<open>st.cache_data(ttl=...)\<close> of Streamlit, for a function of one string
  argument. The cache maps an argument to the value returned for it and the reading of the
  clock when it was stored. A call finds an entry younger than \<open>ttl\<close> seconds and returns
  its value without running the function, or it drops the entry, runs the function and
  stores what it returns; a raise of the function passes through and stores nothing. The
  clock reading \<open>now\<close> of the call is an argument.
\<close>

type_synonym 'v cache = "string \<rightharpoonup> real \<times> 'v"

definition cache_data ::
  "real \<Rightarrow> (string \<Rightarrow> string list \<times> (fetch_error + 'v)) \<Rightarrow> 'v cache \<Rightarrow> real \<Rightarrow> string
     \<Rightarrow> 'v cache \<times> string list \<times> (fetch_error + 'v)" where
  "cache_data ttl f cache now arg =
     (let miss =
            (case f arg of
               (calls, Inl e) \<Rightarrow> (cache(arg := None), calls, Inl e)
             | (calls, Inr v) \<Rightarrow> (cache(arg \<mapsto> (now, v)), calls, Inr v))
      in case cache arg of
           None \<Rightarrow> miss
         | Some (stored, v) \<Rightarrow> if now < stored + ttl then (cache, [], Inr v) else miss)"

definition cached_get ::
  "(string \<Rightarrow> http_result) \<Rightarrow> json cache \<Rightarrow> real \<Rightarrow> string
     \<Rightarrow> json cache \<times> string list \<times> (fetch_error + json)" where
  "cached_get backend = cache_data 15 (cached_get_body backend)"

definition txs_simple_url :: "string \<Rightarrow> string \<Rightarrow> int \<Rightarrow> string" where
  "txs_simple_url base addr limit =
     base @ ''/wallet/'' @ addr @ ''/txs_simple?limit='' @ str_int limit"

definition fetch_txs_simple ::
  "(string \<Rightarrow> http_result) \<Rightarrow> json cache \<Rightarrow> real \<Rightarrow> string \<Rightarrow> string \<Rightarrow> int
     \<Rightarrow> json cache \<times> string list \<times> (fetch_error + json)" where
  "fetch_txs_simple backend cache now base addr limit =
     cached_get backend cache now (txs_simple_url base addr limit)"

subsection \<open>The type filter (lines 132--151, \<^verbatim>\<open>render_table\<close>)\<close>

text \<open>
  A cell of the column \<^verbatim>\<open>type\<close>, as pandas and Python compare it: \<^verbatim>\<open>None\<close> where the proxy
  sent null, a string, a number by its value (\<^verbatim>\<open>bool\<close>, \<^verbatim>\<open>int\<close> and \<^verbatim>\<open>float\<close> are equal, hash
  and order by value), or a list or a \<^verbatim>\<open>dict\<close>, which cannot be hashed. The proxy and
  \<^verbatim>\<open>to_dataframe\<close> pass the upstream value through as it is, so all four occur.
\<close>

datatype cell =
    NA
  | Str string
  | Num rat
  | Unhashable

text \<open>
  A row of the table. The filter reads the column \<^verbatim>\<open>type\<close> only; the other columns are the
  extension of the record.
\<close>

record view_row =
  col_type :: cell

fun str_values :: "cell list \<Rightarrow> string list" where
  "str_values [] = []"
| "str_values (Str s # cs) = s # str_values cs"
| "str_values (c # cs) = str_values cs"

fun num_values :: "cell list \<Rightarrow> rat list" where
  "num_values [] = []"
| "num_values (Num n # cs) = n # num_values cs"
| "num_values (c # cs) = num_values cs"

text \<open>
  \<^verbatim>\<open>sorted(view["type"].dropna().unique().tolist())\<close>. \<^verbatim>\<open>dropna\<close> removes \<^verbatim>\<open>None\<close>; \<^verbatim>\<open>unique\<close>
  hashes the values and raises \<^verbatim>\<open>TypeError\<close> on a list or a \<^verbatim>\<open>dict\<close>, otherwise it keeps each
  value once; \<^verbatim>\<open>sorted\<close> orders strings among themselves and numbers among themselves, and
  raises \<^verbatim>\<open>TypeError\<close> when it has to compare a string with a number.
\<close>

definition types :: "'a view_row_scheme list \<Rightarrow> error + cell list" where
  "types view =
     (let present = filter (\<lambda>c. c \<noteq> NA) (map col_type view) in
      if Unhashable \<in> set present then Inl TypeError
      else if num_values present = [] then Inr (map Str (sort (remdups (str_values present))))
      else if str_values present = [] then Inr (map Num (sort (remdups (num_values present))))
      else Inl TypeError)"

text \<open>
  \<^verbatim>\<open>st.multiselect(label, options, default=...)\<close>: the preset selection until the user picks,
  then the picked options.
\<close>

definition multiselect :: "cell list option \<Rightarrow> cell list \<Rightarrow> cell list \<Rightarrow> cell list" where
  "multiselect picked options preset =
     (case picked of None \<Rightarrow> preset | Some sel \<Rightarrow> filter (\<lambda>t. t \<in> set options) sel)"

text \<open>\<^verbatim>\<open>Series.isin\<close> of one cell: whether its value is one of the chosen values.\<close>

definition isin :: "cell \<Rightarrow> cell list \<Rightarrow> bool" where
  "isin v chosen \<longleftrightarrow> v \<in> set chosen"

text \<open>
  \<^verbatim>\<open>render_table\<close> up to the filter: nothing for an empty table (the function returns after
  \<^verbatim>\<open>st.info\<close>), otherwise the options offered and the rows left in \<^verbatim>\<open>view\<close>, or the
  \<^verbatim>\<open>TypeError\<close> of line 149.
\<close>

definition render_table ::
  "cell list option \<Rightarrow> 'a view_row_scheme list
     \<Rightarrow> error + (cell list \<times> 'a view_row_scheme list) option" where
  "render_table picked df =
     (if df = [] then Inr None
      else
        (case types df of
           Inl e \<Rightarrow> Inl e
         | Inr options \<Rightarrow>
             (let chosen = multiselect picked options options
              in Inr (Some (options, filter (\<lambda>r. isin (col_type r) chosen) df)))))"

subsection \<open>One run of the script (lines 174--198)\<close>




section \<open>Reference functions of the specification\<close>

text \<open>
  The functions below are not in the source: they say, in the specification's terms,
  what the loops are expected to compute, and the theorems compare the loops with them.
  \<open>field\<close> is a field of an object, absent on anything else; \<open>get_or_null\<close> reads an
  absent field as null.
\<close>

fun field :: "json \<Rightarrow> string \<Rightarrow> json option" where
  "field (JObject kvs) k = map_of kvs k"
| "field _ k = None"

definition get_or_null :: "json \<Rightarrow> string \<Rightarrow> json" where
  "get_or_null v k = (case field v k of None \<Rightarrow> JNull | Some x \<Rightarrow> x)"

definition symbol_of :: "json \<Rightarrow> json" where
  "symbol_of ch = get_or_null (get_or_null ch ''tokenInfo'') ''symbol''"

definition token_change :: "json \<Rightarrow> json" where
  "token_change ch =
     JObject [(''symbol'', symbol_of ch), (''amount'', get_or_null ch ''tokenAmount''),
              (''owner'', get_or_null ch ''account'')]"

fun is_object :: "json \<Rightarrow> bool" where
  "is_object (JObject kvs) = True"
| "is_object _ = False"

fun keys :: "json \<Rightarrow> string list" where
  "keys (JObject kvs) = map fst kvs"
| "keys _ = []"

text \<open>
  The balance-change entries of a raw transaction, and an entry with a present symbol in
  the plain sense: its \<^verbatim>\<open>tokenInfo.symbol\<close> is there and is not null.
\<close>

definition balance_changes :: "json \<Rightarrow> json list" where
  "balance_changes tx = (case field tx ''balanceChanges'' of Some (JArray chs) \<Rightarrow> chs | _ \<Rightarrow> [])"

definition has_symbol :: "json \<Rightarrow> bool" where
  "has_symbol ch \<longleftrightarrow> symbol_of ch \<noteq> JNull"

text \<open>
  A raw transaction and a balance-change entry of the shape the upstream documents:
  objects whose optional fields may be missing, \<^verbatim>\<open>balanceChanges\<close> an array of entries,
  \<^verbatim>\<open>tokenInfo\<close> an object, or null or another false value.
\<close>

definition well_formed_change :: "json \<Rightarrow> bool" where
  "well_formed_change ch \<longleftrightarrow>
     is_object ch \<and>
     (case field ch ''tokenInfo'' of None \<Rightarrow> True | Some ti \<Rightarrow> is_object ti \<or> \<not> truthy ti)"

definition well_formed_tx :: "json \<Rightarrow> bool" where
  "well_formed_tx tx \<longleftrightarrow>
     is_object tx \<and>
     (case field tx ''balanceChanges'' of
        None \<Rightarrow> True
      | Some changes \<Rightarrow> (case changes of JArray chs \<Rightarrow> list_all well_formed_change chs | _ \<Rightarrow> False))"

text \<open>
  The end-to-end scenario of the specification: one raw transaction with two balance
  changes, the second without token metadata, its simplified form, and the upstream
  response carrying it (the text of the body is abbreviated).
\<close>

definition scenario_raw :: json where
  "scenario_raw =
     JObject [(''signature'', JString ''S1''), (''timestamp'', JInt 1700000000),
              (''type'', JString ''TRANSFER''),
              (''balanceChanges'',
                 JArray [JObject [(''tokenInfo'', JObject [(''symbol'', JString ''SOL'')]),
                                  (''tokenAmount'', JFloat (3 / 2)),
                                  (''account'', JString ''A1'')],
                         JObject [(''tokenAmount'', JFloat 2), (''account'', JString ''A2'')]])]"

definition scenario_slim :: json where
  "scenario_slim =
     JObject [(''signature'', JString ''S1''), (''timestamp'', JInt 1700000000),
              (''type'', JString ''TRANSFER''),
              (''token_changes'',
                 JArray [JObject [(''symbol'', JString ''SOL''), (''amount'', JFloat (3 / 2)),
                                  (''owner'', JString ''A1'')]])]"

definition scenario_response :: response where
  "scenario_response =
     \<lparr>status_code = 200, body_text = ''[...]'', json_body = Inr (JArray [scenario_raw])\<rparr>"

text \<open>
  Balance-change entries for the edge cases: one whose symbol is the empty string, one
  with a symbol and neither amount nor account.
\<close>

definition blank_symbol_change :: json where
  "blank_symbol_change =
     JObject [(''tokenInfo'', JObject [(''symbol'', JString [])]),
              (''tokenAmount'', JFloat (3 / 2)), (''account'', JString ''A1'')]"

definition bare_symbol_change :: json where
  "bare_symbol_change = JObject [(''tokenInfo'', JObject [(''symbol'', JString ''SOL'')])]"

text \<open>
  Servers for the examples: one that refuses connections, one that answers every URL with
  the same response; three responses; the environment holding a key; the empty cache; two
  rows of the table.
\<close>

definition backend_down :: "string \<Rightarrow> http_result" where
  "backend_down url = RequestException ''Connection refused''"

definition answering :: "response \<Rightarrow> string \<Rightarrow> http_result" where
  "answering resp url = Response resp"

definition not_found_response :: response where
  "not_found_response =
     \<lparr>status_code = 404, body_text = ''not found'', json_body = Inl ''Expecting value''\<rparr>"

definition multiple_choices_response :: response where
  "multiple_choices_response =
     \<lparr>status_code = 300, body_text = ''[]'', json_body = Inr (JArray [])\<rparr>"

definition slim_response :: response where
  "slim_response =
     \<lparr>status_code = 200, body_text = ''[...]'', json_body = Inr (JArray [scenario_slim])\<rparr>"

definition environ_with :: "string \<Rightarrow> (string \<rightharpoonup> string)" where
  "environ_with api_key = [''HELIUS_API_KEY'' \<mapsto> api_key]"

definition no_environ :: "string \<rightharpoonup> string" where
  "no_environ = Map.empty"

definition empty_cache :: "json cache" where
  "empty_cache = Map.empty"








section \<open>The loops compute a filter and a map\<close>

lemma dict_get_null: "dict_get v k JNull = Inr x \<Longrightarrow> x = get_or_null v k"
  by (cases v) (auto simp: get_or_null_def)

lemma symbol_step:
  assumes "dict_get ch ''tokenInfo'' JNull = Inr ti"
    and "dict_get (if truthy ti then ti else JObject []) ''symbol'' JNull = Inr symbol"
  shows "symbol = symbol_of ch"
proof -
  have ti: "ti = get_or_null ch ''tokenInfo''" using assms(1) by (rule dict_get_null)
  show ?thesis
  proof (cases "truthy ti")
    case True
    with assms(2) have "symbol = get_or_null ti ''symbol''" by (simp add: dict_get_null)
    with ti show ?thesis by (simp add: symbol_of_def)
  next
    case False
    with assms(2) have s: "symbol = JNull" by simp
    from False have "get_or_null ti ''symbol'' = JNull"
      by (cases ti) (auto simp: get_or_null_def)
    with s ti show ?thesis by (simp add: symbol_of_def)
  qed
qed

lemma token_changes_loop_filter:
  "token_changes_loop chs acc = Inr out \<Longrightarrow>
   out = acc @ map token_change (filter (\<lambda>ch. truthy (symbol_of ch)) chs)"
proof (induction chs arbitrary: acc)
  case Nil
  then show ?case by simp
next
  case (Cons ch rest)
  from Cons.prems obtain ti where ti: "dict_get ch ''tokenInfo'' JNull = Inr ti"
    by (auto split: sum.splits)
  from Cons.prems ti obtain symbol where
    sy: "dict_get (if truthy ti then ti else JObject []) ''symbol'' JNull = Inr symbol"
    by (auto split: sum.splits)
  have sym: "symbol = symbol_of ch" using ti sy by (rule symbol_step)
  show ?case
  proof (cases "truthy symbol")
    case True
    from Cons.prems ti sy True obtain amount where am: "dict_get ch ''tokenAmount'' JNull = Inr amount"
      by (auto split: sum.splits)
    from Cons.prems ti sy True am obtain owner where ow: "dict_get ch ''account'' JNull = Inr owner"
      by (auto split: sum.splits)
    have tc: "JObject [(''symbol'', symbol), (''amount'', amount), (''owner'', owner)] = token_change ch"
      using sym dict_get_null[OF am] dict_get_null[OF ow] by (simp add: token_change_def)
    from Cons.prems ti sy True am ow
    have "token_changes_loop rest (acc @ [token_change ch]) = Inr out"
      by (simp add: tc)
    from Cons.IH[OF this] True sym show ?thesis by simp
  next
    case False
    with Cons.prems ti sy have "token_changes_loop rest acc = Inr out" by simp
    from Cons.IH[OF this] False sym show ?thesis by simp
  qed
qed

lemma iterated_changes:
  assumes "dict_get tx ''balanceChanges'' (JArray []) = Inr changes"
    and "py_iter changes = Inr chs"
    and "token_changes_loop chs acc = Inr out"
  shows "chs = balance_changes tx"
proof -
  from assms(1) obtain kvs where tx: "tx = JObject kvs" by (cases tx) auto
  show ?thesis
  proof (cases changes)
    case (JArray xs)
    with assms(1,2) tx show ?thesis
      by (auto simp: balance_changes_def split: option.splits)
  next
    case (JObject items)
    have "items = []"
    proof (cases items)
      case Nil then show ?thesis .
    next
      case (Cons kv more)
      with JObject assms(2) have "chs = JString (fst kv) # map (\<lambda>kv. JString (fst kv)) more" by auto
      with assms(3) show ?thesis by simp
    qed
    with JObject assms(1,2) tx show ?thesis
      by (auto simp: balance_changes_def split: option.splits)
  next
    case (JString s)
    have "s = []"
    proof (cases s)
      case Nil then show ?thesis .
    next
      case (Cons c more)
      with JString assms(2) have "chs = JString [c] # map (\<lambda>c. JString [c]) more" by auto
      with assms(3) show ?thesis by simp
    qed
    with JString assms(1,2) tx show ?thesis
      by (auto simp: balance_changes_def split: option.splits)
  qed (use assms(2) in auto)
qed

lemma simplify_tx_Inr:
  assumes "simplify_tx tx = Inr out"
  shows "out = JObject [(''signature'', get_or_null tx ''signature''),
                        (''timestamp'', get_or_null tx ''timestamp''),
                        (''type'', get_or_null tx ''type''),
                        (''token_changes'',
                           JArray (map token_change
                             (filter (\<lambda>ch. truthy (symbol_of ch)) (balance_changes tx))))]"
proof -
  from assms obtain changes where c: "dict_get tx ''balanceChanges'' (JArray []) = Inr changes"
    by (auto simp: simplify_tx_def split: sum.splits)
  from assms c obtain chs where i: "py_iter changes = Inr chs"
    by (auto simp: simplify_tx_def split: sum.splits)
  from assms c i obtain tcs where l: "token_changes_loop chs [] = Inr tcs"
    by (auto simp: simplify_tx_def split: sum.splits)
  have chs: "chs = balance_changes tx" using c i l by (rule iterated_changes)
  have tcs: "tcs = map token_change (filter (\<lambda>ch. truthy (symbol_of ch)) (balance_changes tx))"
    using token_changes_loop_filter[OF l] chs by simp
  from c obtain kvs where tx: "tx = JObject kvs" by (cases tx) auto
  from assms c i l tx have "out = JObject [(''signature'', get_or_null tx ''signature''),
                        (''timestamp'', get_or_null tx ''timestamp''),
                        (''type'', get_or_null tx ''type''),
                        (''token_changes'', JArray tcs)]"
    by (auto simp: simplify_tx_def get_or_null_def split: option.splits)
  with tcs show ?thesis by simp
qed

lemma token_changes_loop_step:
  assumes "well_formed_change ch"
  shows "token_changes_loop (ch # rest) acc =
         token_changes_loop rest (if truthy (symbol_of ch) then acc @ [token_change ch] else acc)"
proof -
  from assms obtain kvs where ch: "ch = JObject kvs"
    by (cases ch) (auto simp: well_formed_change_def)
  show ?thesis
  proof (cases "map_of kvs ''tokenInfo''")
    case None
    then show ?thesis
      by (simp add: ch symbol_of_def get_or_null_def)
  next
    case (Some ti)
    show ?thesis
    proof (cases "truthy ti")
      case False
      have "get_or_null ti ''symbol'' = JNull"
        using False by (cases ti) (auto simp: get_or_null_def)
      with False Some show ?thesis
        by (simp add: ch symbol_of_def get_or_null_def)
    next
      case True
      with assms Some ch obtain tkvs where ti: "ti = JObject tkvs"
        by (cases ti) (auto simp: well_formed_change_def)
      with True Some show ?thesis
        by (simp add: ch symbol_of_def get_or_null_def token_change_def split: option.splits)
    qed
  qed
qed

lemma token_changes_loop_total:
  "list_all well_formed_change chs \<Longrightarrow>
   token_changes_loop chs acc =
     Inr (acc @ map token_change (filter (\<lambda>ch. truthy (symbol_of ch)) chs))"
proof (induction chs arbitrary: acc)
  case Nil
  then show ?case by simp
next
  case (Cons ch rest)
  from Cons.prems have wf: "well_formed_change ch" and r: "list_all well_formed_change rest"
    by simp_all
  show ?case
    unfolding token_changes_loop_step[OF wf] Cons.IH[OF r] by simp
qed

lemma simplify_tx_total:
  assumes "well_formed_tx tx"
  shows "simplify_tx tx =
         Inr (JObject [(''signature'', get_or_null tx ''signature''),
                        (''timestamp'', get_or_null tx ''timestamp''),
                        (''type'', get_or_null tx ''type''),
                        (''token_changes'',
                           JArray (map token_change
                             (filter (\<lambda>ch. truthy (symbol_of ch)) (balance_changes tx))))])"
proof -
  from assms obtain kvs where tx: "tx = JObject kvs"
    by (cases tx) (auto simp: well_formed_tx_def)
  show ?thesis
  proof (cases "map_of kvs ''balanceChanges''")
    case None
    then show ?thesis
      by (simp add: tx simplify_tx_def balance_changes_def get_or_null_def)
  next
    case (Some changes)
    with assms tx obtain chs where c: "changes = JArray chs" and wf: "list_all well_formed_change chs"
      by (cases changes) (auto simp: well_formed_tx_def)
    show ?thesis
      using Some c token_changes_loop_total[OF wf, of "[]"]
      by (simp add: tx simplify_tx_def balance_changes_def get_or_null_def)
  qed
qed

lemma slim_loop_all2:
  "slim_loop raw acc = Inr out \<Longrightarrow>
   \<exists>slim. out = acc @ slim \<and> list_all2 (\<lambda>tx s. simplify_tx tx = Inr s) raw slim"
proof (induction raw arbitrary: acc)
  case Nil
  then show ?case by simp
next
  case (Cons tx rest)
  from Cons.prems obtain s where s: "simplify_tx tx = Inr s"
    by (auto split: sum.splits)
  with Cons.prems have "slim_loop rest (acc @ [s]) = Inr out" by simp
  from Cons.IH[OF this] obtain slim where "out = (acc @ [s]) @ slim"
    and "list_all2 (\<lambda>tx s. simplify_tx tx = Inr s) rest slim" by blast
  with s have "out = acc @ (s # slim) \<and> list_all2 (\<lambda>tx s. simplify_tx tx = Inr s) (tx # rest) (s # slim)"
    by simp
  then show ?case by blast
qed

lemma slim_loop_total:
  "list_all well_formed_tx raw \<Longrightarrow> \<exists>out. slim_loop raw acc = Inr out"
proof (induction raw arbitrary: acc)
  case Nil
  then show ?case by simp
next
  case (Cons tx rest)
  then show ?case by (simp add: simplify_tx_total)
qed


lemma simplify_total:
  assumes "list_all well_formed_tx raw"
  shows "\<exists>out. simplify (JArray raw) = Inr out"
proof -
  from slim_loop_total [OF assms, of "[]"] obtain l where "slim_loop raw [] = Inr l" by blast
  then show ?thesis by (simp add: simplify_def)
qed

lemma simplify_array:
  assumes "simplify (JArray raw) = Inr out"
  shows "\<exists>slim. out = JArray slim \<and> list_all2 (\<lambda>tx s. simplify_tx tx = Inr s) raw slim"
proof -
  from assms obtain l where l: "slim_loop raw [] = Inr l" and o: "out = JArray l"
    by (auto simp: simplify_def split: sum.splits)
  from slim_loop_all2 [OF l] o show ?thesis by simp
qed

lemma no_symbol_not_kept: "\<not> has_symbol ch \<Longrightarrow> \<not> truthy (symbol_of ch)"
  by (simp add: has_symbol_def)

lemma null_balance_changes_raises:
  "simplify_tx (JObject [(''signature'', JString ''S1''), (''balanceChanges'', JNull)]) =
   Inl TypeError"
  by (simp add: simplify_tx_def)

section \<open>The simplification\<close>

text \<open>
  C1, as amended. Whenever the simplification of a raw transaction returns, its
  \<^verbatim>\<open>token_changes\<close> are the \<open>{symbol, amount, owner}\<close> records of exactly the balance-change
  entries whose symbol is true in Python's sense (not absent, not null, not the empty
  string, not zero), in the upstream order. The claim as stated keeps every entry with a
  present symbol; an entry whose symbol is present and empty is dropped.
\<close>

theorem truthy_symbols_retained:
  assumes "simplify_tx tx = Inr out"
  shows "field out ''token_changes'' =
         Some (JArray (map token_change
                        (filter (\<lambda>ch. truthy (symbol_of ch)) (balance_changes tx))))"
  using simplify_tx_Inr [OF assms] by simp

theorem truthy_symbols_retained_witness:
  "simplify_tx scenario_raw = Inr scenario_slim \<and>
   field scenario_slim ''token_changes'' =
     Some (JArray [JObject [(''symbol'', JString ''SOL''), (''amount'', JFloat (3 / 2)),
                            (''owner'', JString ''A1'')]]) \<and>
   map token_change (filter (\<lambda>ch. truthy (symbol_of ch)) (balance_changes scenario_raw)) =
     [JObject [(''symbol'', JString ''SOL''), (''amount'', JFloat (3 / 2)),
               (''owner'', JString ''A1'')]]"
proof -
  have s: "simplify_tx scenario_raw = Inr scenario_slim"
    by (simp add: simplify_tx_def scenario_raw_def scenario_slim_def)
  have f: "field scenario_slim ''token_changes'' =
     Some (JArray [JObject [(''symbol'', JString ''SOL''), (''amount'', JFloat (3 / 2)),
                            (''owner'', JString ''A1'')]])"
    by (simp add: scenario_slim_def)
  from truthy_symbols_retained [OF s] f s show ?thesis by simp
qed

theorem present_symbol_counterexample:
  "has_symbol blank_symbol_change \<and>
   simplify_tx (JObject [(''signature'', JString ''S1''),
                         (''balanceChanges'', JArray [blank_symbol_change])]) =
   Inr (JObject [(''signature'', JString ''S1''), (''timestamp'', JNull), (''type'', JNull),
                 (''token_changes'', JArray [])])"
  by (simp add: has_symbol_def symbol_of_def get_or_null_def blank_symbol_change_def
        simplify_tx_def)

text \<open>
  C2, as amended. For every raw transaction object whose \<^verbatim>\<open>balanceChanges\<close>, when present,
  is an array of objects whose \<^verbatim>\<open>tokenInfo\<close>, when present, is an object or a false value
  such as null, the simplification does not raise: it returns the four fields, with null
  for a missing \<^verbatim>\<open>signature\<close>, \<^verbatim>\<open>timestamp\<close> or \<^verbatim>\<open>type\<close> and an empty sequence for a missing
  change list. The claim as stated covers every raw transaction object and every malformed
  optional field; a \<^verbatim>\<open>tokenInfo\<close> that is a non-empty string makes the loop raise.
\<close>

theorem missing_fields_default:
  assumes "well_formed_tx tx"
  shows "\<exists>sg ts ty tcs.
           simplify_tx tx =
             Inr (JObject [(''signature'', sg), (''timestamp'', ts), (''type'', ty),
                           (''token_changes'', JArray tcs)]) \<and>
           sg = (case field tx ''signature'' of None \<Rightarrow> JNull | Some v \<Rightarrow> v) \<and>
           ts = (case field tx ''timestamp'' of None \<Rightarrow> JNull | Some v \<Rightarrow> v) \<and>
           ty = (case field tx ''type'' of None \<Rightarrow> JNull | Some v \<Rightarrow> v) \<and>
           (field tx ''balanceChanges'' = None \<longrightarrow> tcs = [])"
proof -
  have "field tx ''balanceChanges'' = None \<longrightarrow> balance_changes tx = []"
    by (simp add: balance_changes_def)
  with simplify_tx_total [OF assms] show ?thesis
    by (simp add: get_or_null_def)
qed

theorem missing_fields_default_witness:
  "well_formed_tx (JObject [(''signature'', JString ''S1''), (''junk'', JInt 7)]) \<and>
   simplify_tx (JObject [(''signature'', JString ''S1''), (''junk'', JInt 7)]) =
     Inr (JObject [(''signature'', JString ''S1''), (''timestamp'', JNull), (''type'', JNull),
                   (''token_changes'', JArray [])]) \<and>
   well_formed_tx (JObject [(''balanceChanges'',
                      JArray [JObject [(''tokenInfo'', JNull), (''tokenAmount'', JInt 5)],
                              bare_symbol_change])]) \<and>
   simplify_tx (JObject [(''balanceChanges'',
                      JArray [JObject [(''tokenInfo'', JNull), (''tokenAmount'', JInt 5)],
                              bare_symbol_change])]) =
     Inr (JObject [(''signature'', JNull), (''timestamp'', JNull), (''type'', JNull),
                   (''token_changes'',
                      JArray [JObject [(''symbol'', JString ''SOL''), (''amount'', JNull),
                                       (''owner'', JNull)]])])"
proof -
  let ?a = "JObject [(''signature'', JString ''S1''), (''junk'', JInt 7)]"
  let ?b = "JObject [(''balanceChanges'',
                      JArray [JObject [(''tokenInfo'', JNull), (''tokenAmount'', JInt 5)],
                              bare_symbol_change])]"
  have a: "well_formed_tx ?a" by (simp add: well_formed_tx_def)
  have b: "well_formed_tx ?b"
    by (simp add: well_formed_tx_def well_formed_change_def bare_symbol_change_def)
  have ea: "simplify_tx ?a =
     Inr (JObject [(''signature'', JString ''S1''), (''timestamp'', JNull), (''type'', JNull),
                   (''token_changes'', JArray [])])"
    using missing_fields_default [OF a] by auto
  have eb: "simplify_tx ?b =
     Inr (JObject [(''signature'', JNull), (''timestamp'', JNull), (''type'', JNull),
                   (''token_changes'',
                      JArray [JObject [(''symbol'', JString ''SOL''), (''amount'', JNull),
                                       (''owner'', JNull)]])])"
    by (simp add: simplify_tx_def bare_symbol_change_def)
  from a b ea eb show ?thesis by blast
qed

theorem malformed_field_counterexample:
  "simplify_tx (JObject [(''signature'', JString ''S1''),
                         (''balanceChanges'',
                            JArray [JObject [(''tokenInfo'', JString ''SOL'')]])]) =
   Inl AttributeError"
  by (simp add: simplify_tx_def)

text \<open>
  C6. Whenever the proxy returns for an upstream array, its output is an array with
  exactly one simplified transaction per raw transaction, the one at position \<open>i\<close> being
  the simplification of the raw transaction at position \<open>i\<close>; its \<^verbatim>\<open>token_changes\<close> are no
  more than the raw balance-change entries, and they are a subsequence of the records of
  these entries, so in upstream order.
\<close>

theorem one_per_transaction_in_order:
  assumes "simplify (JArray raw) = Inr out"
  shows "\<exists>slim. out = JArray slim \<and> length slim = length raw \<and>
           (\<forall>i < length raw.
              simplify_tx (raw ! i) = Inr (slim ! i) \<and>
              (\<exists>tcs. field (slim ! i) ''token_changes'' = Some (JArray tcs) \<and>
                     length tcs \<le> length (balance_changes (raw ! i)) \<and>
                     subseq tcs (map token_change (balance_changes (raw ! i)))))"
proof -
  from simplify_array [OF assms] obtain slim where o: "out = JArray slim"
    and a: "list_all2 (\<lambda>tx s. simplify_tx tx = Inr s) raw slim" by blast
  have len: "length slim = length raw" using a by (simp add: list_all2_lengthD)
  have "simplify_tx (raw ! i) = Inr (slim ! i) \<and>
        (\<exists>tcs. field (slim ! i) ''token_changes'' = Some (JArray tcs) \<and>
               length tcs \<le> length (balance_changes (raw ! i)) \<and>
               subseq tcs (map token_change (balance_changes (raw ! i))))"
    if i: "i < length raw" for i
  proof -
    let ?kept = "filter (\<lambda>ch. truthy (symbol_of ch)) (balance_changes (raw ! i))"
    have s: "simplify_tx (raw ! i) = Inr (slim ! i)"
      using list_all2_nthD [OF a i] .
    have f: "field (slim ! i) ''token_changes'' = Some (JArray (map token_change ?kept))"
      using simplify_tx_Inr [OF s] by simp
    have l: "length (map token_change ?kept) \<le> length (balance_changes (raw ! i))"
      by simp
    have q: "subseq (map token_change ?kept) (map token_change (balance_changes (raw ! i)))"
      by (simp add: subseq_map)
    from s f l q show ?thesis by blast
  qed
  with o len show ?thesis by blast
qed

theorem one_per_transaction_in_order_witness:
  "simplify (JArray [scenario_raw, JObject []]) =
     Inr (JArray [scenario_slim,
                  JObject [(''signature'', JNull), (''timestamp'', JNull), (''type'', JNull),
                           (''token_changes'', JArray [])]]) \<and>
   (\<exists>slim. JArray [scenario_slim,
                  JObject [(''signature'', JNull), (''timestamp'', JNull), (''type'', JNull),
                           (''token_changes'', JArray [])]] = JArray slim \<and>
           length slim = length [scenario_raw, JObject []] \<and>
           simplify_tx scenario_raw = Inr (slim ! 0) \<and>
           (\<exists>tcs. field (slim ! 0) ''token_changes'' = Some (JArray tcs) \<and>
                  length tcs \<le> length (balance_changes scenario_raw) \<and>
                  subseq tcs (map token_change (balance_changes scenario_raw))))"
proof -
  let ?out = "JArray [scenario_slim,
                  JObject [(''signature'', JNull), (''timestamp'', JNull), (''type'', JNull),
                           (''token_changes'', JArray [])]]"
  have s: "simplify (JArray [scenario_raw, JObject []]) = Inr ?out"
    by (simp add: simplify_def simplify_tx_def scenario_raw_def scenario_slim_def)
  from one_per_transaction_in_order [OF s] obtain slim where
    o: "?out = JArray slim" and l: "length slim = length [scenario_raw, JObject []]"
    and a: "\<forall>i < length [scenario_raw, JObject []].
              simplify_tx ([scenario_raw, JObject []] ! i) = Inr (slim ! i) \<and>
              (\<exists>tcs. field (slim ! i) ''token_changes'' = Some (JArray tcs) \<and>
                     length tcs \<le> length (balance_changes ([scenario_raw, JObject []] ! i)) \<and>
                     subseq tcs (map token_change (balance_changes ([scenario_raw, JObject []] ! i))))"
    by blast
  from a have "simplify_tx ([scenario_raw, JObject []] ! 0) = Inr (slim ! 0) \<and>
              (\<exists>tcs. field (slim ! 0) ''token_changes'' = Some (JArray tcs) \<and>
                     length tcs \<le> length (balance_changes ([scenario_raw, JObject []] ! 0)) \<and>
                     subseq tcs (map token_change (balance_changes ([scenario_raw, JObject []] ! 0))))"
    by (simp del: nth_Cons_0)
  then have "simplify_tx scenario_raw = Inr (slim ! 0) \<and>
              (\<exists>tcs. field (slim ! 0) ''token_changes'' = Some (JArray tcs) \<and>
                     length tcs \<le> length (balance_changes scenario_raw) \<and>
                     subseq tcs (map token_change (balance_changes scenario_raw)))"
    by simp
  with s o l show ?thesis by blast
qed

text \<open>
  C10. The empty object is simplified to the four keys with null scalars and no token
  changes; and whenever the simplification of a raw transaction returns, the result is an
  object with exactly the keys \<^verbatim>\<open>signature\<close>, \<^verbatim>\<open>timestamp\<close>, \<^verbatim>\<open>type\<close>, \<^verbatim>\<open>token_changes\<close>, in this
  order, and every element of \<^verbatim>\<open>token_changes\<close> is an object with exactly the keys
  \<^verbatim>\<open>symbol\<close>, \<^verbatim>\<open>amount\<close>, \<^verbatim>\<open>owner\<close>, whose symbol is true. The witness is an entry with a
  symbol and neither amount nor owner: both are null in the output.
\<close>

theorem simplified_shape:
  "simplify_tx (JObject []) =
     Inr (JObject [(''signature'', JNull), (''timestamp'', JNull), (''type'', JNull),
                   (''token_changes'', JArray [])]) \<and>
   (simplify_tx tx = Inr out \<longrightarrow>
      is_object out \<and>
      keys out = [''signature'', ''timestamp'', ''type'', ''token_changes''] \<and>
      (\<exists>tcs. field out ''token_changes'' = Some (JArray tcs) \<and>
             (\<forall>tc \<in> set tcs.
                is_object tc \<and> keys tc = [''symbol'', ''amount'', ''owner''] \<and>
                (\<exists>symbol. field tc ''symbol'' = Some symbol \<and> truthy symbol))))"
proof -
  have e: "simplify_tx (JObject []) =
     Inr (JObject [(''signature'', JNull), (''timestamp'', JNull), (''type'', JNull),
                   (''token_changes'', JArray [])])"
    by (simp add: simplify_tx_def)
  have "is_object out \<and>
      keys out = [''signature'', ''timestamp'', ''type'', ''token_changes''] \<and>
      (\<exists>tcs. field out ''token_changes'' = Some (JArray tcs) \<and>
             (\<forall>tc \<in> set tcs.
                is_object tc \<and> keys tc = [''symbol'', ''amount'', ''owner''] \<and>
                (\<exists>symbol. field tc ''symbol'' = Some symbol \<and> truthy symbol)))"
    if s: "simplify_tx tx = Inr out"
  proof -
    let ?tcs = "map token_change (filter (\<lambda>ch. truthy (symbol_of ch)) (balance_changes tx))"
    note o = simplify_tx_Inr [OF s]
    have 1: "is_object out" and 2: "keys out = [''signature'', ''timestamp'', ''type'', ''token_changes'']"
      and 3: "field out ''token_changes'' = Some (JArray ?tcs)"
      using o by simp_all
    have 4: "\<forall>tc \<in> set ?tcs.
                is_object tc \<and> keys tc = [''symbol'', ''amount'', ''owner''] \<and>
                (\<exists>symbol. field tc ''symbol'' = Some symbol \<and> truthy symbol)"
      by (auto simp: token_change_def)
    from 1 2 3 4 show ?thesis by blast
  qed
  with e show ?thesis by blast
qed

theorem simplified_shape_witness:
  "simplify_tx (JObject [(''balanceChanges'', JArray [bare_symbol_change])]) =
     Inr (JObject [(''signature'', JNull), (''timestamp'', JNull), (''type'', JNull),
                   (''token_changes'',
                      JArray [JObject [(''symbol'', JString ''SOL''), (''amount'', JNull),
                                       (''owner'', JNull)]])]) \<and>
   keys (JObject [(''signature'', JNull), (''timestamp'', JNull), (''type'', JNull),
                   (''token_changes'',
                      JArray [JObject [(''symbol'', JString ''SOL''), (''amount'', JNull),
                                       (''owner'', JNull)]])]) =
     [''signature'', ''timestamp'', ''type'', ''token_changes'']"
proof -
  let ?tx = "JObject [(''balanceChanges'', JArray [bare_symbol_change])]"
  let ?out = "JObject [(''signature'', JNull), (''timestamp'', JNull), (''type'', JNull),
                   (''token_changes'',
                      JArray [JObject [(''symbol'', JString ''SOL''), (''amount'', JNull),
                                       (''owner'', JNull)]])]"
  have s: "simplify_tx ?tx = Inr ?out"
    by (simp add: simplify_tx_def bare_symbol_change_def)
  from simplified_shape [of ?tx ?out] s
  have "keys ?out = [''signature'', ''timestamp'', ''type'', ''token_changes'']" by blast
  with s show ?thesis by blast
qed

section \<open>The proxy's error paths\<close>

lemma key_configured:
  "environ ''HELIUS_API_KEY'' = Some key \<Longrightarrow> key \<noteq> [] \<Longrightarrow> get_helius_key environ = Inr key"
  by (simp add: get_helius_key_def)

lemma scenario_simplified: "simplify (JArray [scenario_raw]) = Inr (JArray [scenario_slim])"
  by (simp add: simplify_def simplify_tx_def scenario_raw_def scenario_slim_def)

text \<open>
  C3. When no API credential is configured (the variable is unset, or set to the empty
  string), every request to the wallet endpoint ends in an HTTP 500 whose detail says that
  the key is missing, and the list of upstream requests is empty.
\<close>

theorem missing_credential:
  assumes "environ ''HELIUS_API_KEY'' = None \<or> environ ''HELIUS_API_KEY'' = Some []"
  shows "get_wallet_txs_simple environ upstream address limit =
         ([], Inl (HTTPException 500 ''HELIUS_API_KEY missing in .env or environment variables''))"
  using assms by (auto simp: get_wallet_txs_simple_def get_helius_key_def)

theorem missing_credential_witness:
  "get_wallet_txs_simple no_environ (answering scenario_response)
     ''So11111111111111111111111111111111111111112'' (Some 3) =
     ([], Inl (HTTPException 500 ''HELIUS_API_KEY missing in .env or environment variables'')) \<and>
   get_wallet_txs_simple (environ_with []) (answering scenario_response)
     ''So11111111111111111111111111111111111111112'' (Some 3) =
     ([], Inl (HTTPException 500 ''HELIUS_API_KEY missing in .env or environment variables''))"
  using missing_credential [of no_environ] missing_credential [of "environ_with []"]
  by (simp add: no_environ_def environ_with_def)

text \<open>
  C8. With a credential configured, a transport failure of the upstream call (whatever
  \<^verbatim>\<open>RequestException\<close> the client raises, with message \<open>msg\<close>) ends in an HTTP 500 with
  detail \<open>msg\<close>, after exactly one upstream request.
\<close>

theorem transport_failure:
  assumes "environ ''HELIUS_API_KEY'' = Some key" and "key \<noteq> []"
    and "upstream (request_url address key limit) = RequestException msg"
  shows "get_wallet_txs_simple environ upstream address limit =
         ([request_url address key limit], Inl (HTTPException 500 msg))"
  using assms by (simp add: get_wallet_txs_simple_def key_configured)

theorem transport_failure_witness:
  "get_wallet_txs_simple (environ_with ''k1'') backend_down ''So11'' (Some 3) =
   ([request_url ''So11'' ''k1'' (Some 3)], Inl (HTTPException 500 ''Connection refused''))"
  using transport_failure [of "environ_with ''k1''" "''k1''" backend_down "''So11''" "Some 3"
      "''Connection refused''"]
  by (simp add: environ_with_def backend_down_def)

text \<open>
  C4, as amended. With a credential configured, an upstream response whose status is a
  client or server error (400 to 599) ends in an HTTP error with exactly the upstream's
  status code and exactly the upstream's body as detail, after exactly one upstream
  request. The claim as stated speaks of every status outside 200 to 299; for a status
  such as 300 the client does not raise, and the proxy goes on to decode and simplify the
  body.
\<close>

theorem upstream_error_passthrough:
  assumes "environ ''HELIUS_API_KEY'' = Some key" and "key \<noteq> []"
    and "upstream (request_url address key limit) = Response resp"
    and "400 \<le> status_code resp" and "status_code resp < 600"
  shows "get_wallet_txs_simple environ upstream address limit =
         ([request_url address key limit],
          Inl (HTTPException (status_code resp) (body_text resp)))"
  using assms by (simp add: get_wallet_txs_simple_def key_configured raise_for_status_def)

theorem upstream_error_passthrough_witness:
  "get_wallet_txs_simple (environ_with ''k1'') (answering not_found_response) ''So11'' (Some 3) =
   ([request_url ''So11'' ''k1'' (Some 3)], Inl (HTTPException 404 ''not found''))"
  using upstream_error_passthrough [of "environ_with ''k1''" "''k1''"
      "answering not_found_response" "''So11''" "Some 3" not_found_response]
  by (simp add: environ_with_def answering_def not_found_response_def)

theorem non_2xx_counterexample:
  "status_code multiple_choices_response = 300 \<and>
   body_text multiple_choices_response = ''[]'' \<and>
   get_wallet_txs_simple (environ_with ''k1'') (answering multiple_choices_response)
     ''So11'' (Some 3) =
   ([request_url ''So11'' ''k1'' (Some 3)], Inr (JArray []))"
  by (simp add: get_wallet_txs_simple_def get_helius_key_def raise_for_status_def simplify_def
        environ_with_def answering_def multiple_choices_response_def)

text \<open>
  C5. Two invocations with the same address and limit whose upstream calls give the same
  outcome return the same result, whatever the credentials in force at the two moments:
  the result is a function of the upstream outcome alone.
\<close>

theorem same_upstream_same_output:
  assumes "environ1 ''HELIUS_API_KEY'' = Some key1" and "key1 \<noteq> []"
    and "environ2 ''HELIUS_API_KEY'' = Some key2" and "key2 \<noteq> []"
    and "upstream1 (request_url address key1 limit) = upstream2 (request_url address key2 limit)"
  shows "snd (get_wallet_txs_simple environ1 upstream1 address limit) =
         snd (get_wallet_txs_simple environ2 upstream2 address limit)"
  using assms
  by (simp add: get_wallet_txs_simple_def key_configured Let_def
           split: http_result.splits sum.splits)

theorem same_upstream_same_output_witness:
  "snd (get_wallet_txs_simple (environ_with ''k1'') (answering scenario_response)
          ''So11'' (Some 1)) =
   snd (get_wallet_txs_simple (environ_with ''k2'') (answering scenario_response)
          ''So11'' (Some 1)) \<and>
   snd (get_wallet_txs_simple (environ_with ''k1'') (answering scenario_response)
          ''So11'' (Some 1)) = Inr (JArray [scenario_slim])"
proof -
  have "snd (get_wallet_txs_simple (environ_with ''k1'') (answering scenario_response)
               ''So11'' (Some 1)) =
        Inr (JArray [scenario_slim])"
    by (simp add: get_wallet_txs_simple_def key_configured raise_for_status_def
          scenario_response_def scenario_simplified environ_with_def answering_def)
  then show ?thesis
    using same_upstream_same_output [of "environ_with ''k1''" "''k1''"
        "environ_with ''k2''" "''k2''" "answering scenario_response"
        "''So11''" "Some 1" "answering scenario_response"]
    by (simp add: environ_with_def answering_def)
qed

section \<open>The dashboard's cache and filter\<close>

lemma first_fetch:
  "fetch_txs_simple (answering slim_response) empty_cache 0 base addr limit =
     ([txs_simple_url base addr limit \<mapsto> (0, JArray [scenario_slim])],
      [txs_simple_url base addr limit], Inr (JArray [scenario_slim]))"
  by (simp add: fetch_txs_simple_def cached_get_def cache_data_def cached_get_body_def
        answering_def slim_response_def empty_cache_def raise_for_status_def)

text \<open>
  C7, as amended. Take two fetches with the same base URL, address and limit, the first
  of which returned a value, the second starting from the cache the first left. If the
  second is made less than 15 seconds after the first, the two issue at most one network
  call together, and when the first issued a call the second issues none and returns the
  first's value. If the first issued a call and the second is made 15 seconds or more
  after it, the second issues a new call. The claim as stated covers every pair of
  fetches; a fetch that fails stores nothing, and the next one calls the backend again.
\<close>

theorem cache_window:
  assumes "fetch_txs_simple backend1 cache0 t1 base addr limit = (cache1, calls1, Inr v)"
    and "fetch_txs_simple backend2 cache1 t2 base addr limit = (cache2, calls2, r2)"
  shows "(t2 < t1 + 15 \<longrightarrow> length (calls1 @ calls2) \<le> 1) \<and>
         (calls1 \<noteq> [] \<and> t2 < t1 + 15 \<longrightarrow> calls2 = [] \<and> r2 = Inr v) \<and>
         (calls1 \<noteq> [] \<and> t1 + 15 \<le> t2 \<longrightarrow> calls2 = [txs_simple_url base addr limit])"
  using assms
  unfolding fetch_txs_simple_def cached_get_def cache_data_def cached_get_body_def Let_def
  by (auto split: option.splits http_result.splits if_splits sum.splits prod.splits)

theorem cache_window_witness:
  "snd (fetch_txs_simple (answering slim_response) empty_cache 0
          ''http://127.0.0.1:8000'' ''So11'' 10) =
     ([txs_simple_url ''http://127.0.0.1:8000'' ''So11'' 10], Inr (JArray [scenario_slim])) \<and>
   snd (fetch_txs_simple backend_down
          (fst (fetch_txs_simple (answering slim_response) empty_cache 0
                  ''http://127.0.0.1:8000'' ''So11'' 10))
          14 ''http://127.0.0.1:8000'' ''So11'' 10) =
     ([], Inr (JArray [scenario_slim])) \<and>
   fst (snd (fetch_txs_simple backend_down
          (fst (fetch_txs_simple (answering slim_response) empty_cache 0
                  ''http://127.0.0.1:8000'' ''So11'' 10))
          15 ''http://127.0.0.1:8000'' ''So11'' 10)) =
     [txs_simple_url ''http://127.0.0.1:8000'' ''So11'' 10]"
proof -
  let ?url = "txs_simple_url ''http://127.0.0.1:8000'' ''So11'' 10"
  let ?first = "fetch_txs_simple (answering slim_response) empty_cache 0
                  ''http://127.0.0.1:8000'' ''So11'' 10"
  let ?second = "\<lambda>t. fetch_txs_simple backend_down (fst ?first) t
                        ''http://127.0.0.1:8000'' ''So11'' 10"
  have f1: "?first = (fst ?first, [?url], Inr (JArray [scenario_slim]))"
    by (simp add: first_fetch)
  have f2: "?second t = (fst (?second t), fst (snd (?second t)), snd (snd (?second t)))" for t
    by simp
  from cache_window [OF f1 f2 [of 14]]
  have a: "fst (snd (?second 14)) = [] \<and> snd (snd (?second 14)) = Inr (JArray [scenario_slim])"
    by simp
  from cache_window [OF f1 f2 [of 15]]
  have b: "fst (snd (?second 15)) = [?url]"
    by simp
  from a have c: "snd (?second 14) = ([], Inr (JArray [scenario_slim]))"
    by (metis prod.collapse)
  from f1 have d: "snd ?first = ([?url], Inr (JArray [scenario_slim]))"
    by (metis snd_conv)
  from d c b show ?thesis by blast
qed

theorem failed_fetch_counterexample:
  "fetch_txs_simple backend_down empty_cache 0 ''http://127.0.0.1:8000'' ''So11'' 10 =
     (empty_cache, [txs_simple_url ''http://127.0.0.1:8000'' ''So11'' 10],
      Inl (RequestError ''Connection refused'')) \<and>
   fetch_txs_simple backend_down empty_cache 1 ''http://127.0.0.1:8000'' ''So11'' 10 =
     (empty_cache, [txs_simple_url ''http://127.0.0.1:8000'' ''So11'' 10],
      Inl (RequestError ''Connection refused''))"
  by (simp add: fetch_txs_simple_def cached_get_def cache_data_def cached_get_body_def
        backend_down_def empty_cache_def)

subsection \<open>The filter and the rerun\<close>









lemma mixed_types_raise:
  "render_table None [\<lparr>col_type = Str ''TRANSFER''\<rparr>, \<lparr>col_type = Num 7\<rparr>] = Inl TypeError"
  by (simp add: render_table_def types_def)

lemma unhashable_types_raise:
  "render_table None [\<lparr>col_type = Str ''TRANSFER''\<rparr>, \<lparr>col_type = Unhashable\<rparr>] = Inl TypeError"
  by (simp add: render_table_def types_def)






end
